theory Spec2Isabelle
  imports Complex_Main
begin

section \<open>Carriers: doubles, vectors, dense matrices\<close>

text \<open>
  The header \<^verbatim>\<open>rovio/FilterStates.hpp\<close> computes with \<^verbatim>\<open>double\<close>. A double is modelled by
  an exact real: rounding, overflow and NaN are outside the model. The one way a real
  computation of this file can leave the finite numbers is a division by zero (infinity in
  IEEE arithmetic), so every division of the source goes through \<open>fdiv\<close>, which returns
  the error \<open>NonFinite\<close> there. An array access past its bound is undefined behaviour in
  C++; the model returns \<open>OutOfBounds\<close>.
\<close>

datatype error = OutOfBounds | NonFinite

definition fdiv :: "real \<Rightarrow> real \<Rightarrow> error + real" where
  "fdiv a b = (if b = 0 then Inl NonFinite else Inr (a / b))"

type_synonym V3D = "real \<times> real \<times> real"

type_synonym Vector2d = "real \<times> real"

text \<open>
  A dense Eigen matrix is read by (row, column). Its fixed dimensions are template
  arguments in the source; here they are the bounds the block operations are given.
\<close>

type_synonym Mat = "nat \<Rightarrow> nat \<Rightarrow> real"

definition Mat_Zero :: Mat where
  "Mat_Zero = (\<lambda>r c. 0)"

definition Mat_Identity :: Mat where
  "Mat_Identity = (\<lambda>r c. if r = c then 1 else 0)"

text \<open>\<^verbatim>\<open>m.block<R,C>(r0,c0)\<close> read as a matrix of its own.\<close>

definition block :: "Mat \<Rightarrow> nat \<Rightarrow> nat \<Rightarrow> Mat" where
  "block m r0 c0 = (\<lambda>r c. m (r0 + r) (c0 + c))"

text \<open>
  \<^verbatim>\<open>m.block<R,C>(r0,c0) = b\<close>: the R by C entries from (r0, c0) on are overwritten with
  b, every other entry is kept. \<^verbatim>\<open>setZero()\<close> and \<^verbatim>\<open>setIdentity()\<close> on a block assign
  \<open>Mat_Zero\<close> and \<open>Mat_Identity\<close>.
\<close>

definition block_assign :: "nat \<Rightarrow> nat \<Rightarrow> nat \<Rightarrow> nat \<Rightarrow> Mat \<Rightarrow> Mat \<Rightarrow> Mat" where
  "block_assign R C r0 c0 b m =
     (\<lambda>r c. if r0 \<le> r \<and> r < r0 + R \<and> c0 \<le> c \<and> c < c0 + C
            then b (r - r0) (c - c0) else m r c)"

definition V3D_norm :: "V3D \<Rightarrow> real" where
  "V3D_norm v = (case v of (x, y, z) \<Rightarrow> sqrt (x * x + y * y + z * z))"

definition V3D_scale :: "real \<Rightarrow> V3D \<Rightarrow> V3D" where
  "V3D_scale k v = (case v of (x, y, z) \<Rightarrow> (k * x, k * y, k * z))"

section \<open>External primitives\<close>

text \<open>
  Modelled from the spec: the rotation quaternion \<^verbatim>\<open>QPD\<close> of the kindr library, which is
  not under src/. The spec names "quaternion composition/inversion/rotation-of-vector"
  as primitives this code calls. A rotation quaternion has unit norm, its inverse is its
  conjugate, and it rotates a vector by the rotation matrix it stands for.
\<close>

record QPD =
  qw :: real
  qx :: real
  qy :: real
  qz :: real

definition QPD_setIdentity :: QPD where
  "QPD_setIdentity = \<lparr>qw = 1, qx = 0, qy = 0, qz = 0\<rparr>"

definition inverted :: "QPD \<Rightarrow> QPD" where
  "inverted q = \<lparr>qw = qw q, qx = - qx q, qy = - qy q, qz = - qz q\<rparr>"

definition rotate :: "QPD \<Rightarrow> V3D \<Rightarrow> V3D" where
  "rotate q v = (case v of (vx, vy, vz) \<Rightarrow>
     (let w = qw q; x = qx q; y = qy q; z = qz q in
      ((1 - 2 * (y * y + z * z)) * vx + 2 * (x * y - w * z) * vy + 2 * (x * z + w * y) * vz,
       2 * (x * y + w * z) * vx + (1 - 2 * (x * x + z * z)) * vy + 2 * (y * z - w * x) * vz,
       2 * (x * z - w * y) * vx + 2 * (y * z + w * x) * vy + (1 - 2 * (x * x + y * y)) * vz)))"

text \<open>
  Modelled from the spec: \<^verbatim>\<open>LWF::NormalVectorElement\<close> of the lightweight_filtering
  library, which is not under src/. The spec describes the bearing block as a unit
  direction in a two-parameter encoding: \<^verbatim>\<open>setFromVector\<close> writes it "from
  bearingEstimate (normalized internally)", \<^verbatim>\<open>getVec\<close> reconstructs the "unit-norm
  3-vector", and \<^verbatim>\<open>setIdentity\<close> resets it to "the identity/reference direction". The
  model keeps the direction itself; the reference direction is the unit z axis. The spec
  says nothing about the zero vector, which has no direction: the model leaves it as it
  is, and every statement about a unit norm assumes a vector that is not zero.
\<close>

datatype NormalVectorElement = NormalVectorElement (getVec: V3D)

definition setFromVector :: "V3D \<Rightarrow> NormalVectorElement" where
  "setFromVector n = NormalVectorElement (V3D_scale (1 / V3D_norm n) n)"

definition NormalVectorElement_setIdentity :: NormalVectorElement where
  "NormalVectorElement_setIdentity = NormalVectorElement (0, 0, 1)"

section \<open>DepthMap\<close>

text \<open>
  A member the source writes with a trailing underscore (\<^verbatim>\<open>type_\<close>, \<^verbatim>\<open>state_\<close>,
  \<^verbatim>\<open>cov_\<close>, \<^verbatim>\<open>doVECalibration_\<close>) keeps its name without the underscore, which
  Isabelle does not accept at the end of a name.
\<close>

datatype DepthType = REGULAR | INVERSE | LOG | HYPERBOLIC

record DepthMap =
  type :: DepthType

text \<open>
  The constructor \<^verbatim>\<open>DepthMap(const DepthType& type = REGULAR)\<close> calls \<^verbatim>\<open>setType(type)\<close>
  on the object under construction, whose only member is the one \<^verbatim>\<open>setType\<close> assigns.
\<close>

definition setType :: "DepthType \<Rightarrow> DepthMap \<Rightarrow> DepthMap" where
  "setType t dm = dm\<lparr>type := t\<rparr>"

definition DepthMap_ctor :: "DepthType \<Rightarrow> DepthMap" where
  "DepthMap_ctor t = setType t \<lparr>type = t\<rparr>"

definition DepthMap_default :: DepthMap where
  "DepthMap_default = DepthMap_ctor REGULAR"

text \<open>
  \<^verbatim>\<open>setType(const int& type)\<close>. The second component is what the call writes to
  \<^verbatim>\<open>std::cout\<close>: each entry is the text streamed and the integer streamed after it.
\<close>

definition setType_int :: "int \<Rightarrow> DepthMap \<Rightarrow> DepthMap \<times> (string \<times> int) list" where
  "setType_int t dm =
     (if t = 0 then (dm\<lparr>type := REGULAR\<rparr>, [])
      else if t = 1 then (dm\<lparr>type := INVERSE\<rparr>, [])
      else if t = 2 then (dm\<lparr>type := LOG\<rparr>, [])
      else if t = 3 then (dm\<lparr>type := HYPERBOLIC\<rparr>, [])
      else (dm\<lparr>type := REGULAR\<rparr>, [(''Invalid type for depth parameterization: '', t)]))"

text \<open>The four maps return \<open>(d, d_p, p_d, p_d_p)\<close>, the values the source writes
  through its reference parameters.\<close>

definition mapRegular :: "real \<Rightarrow> error + (real \<times> real \<times> real \<times> real)" where
  "mapRegular p = Inr (p, 1, 1, 0)"

definition mapInverse :: "real \<Rightarrow> error + (real \<times> real \<times> real \<times> real)" where
  "mapInverse p =
     (let p_temp = (if \<bar>p\<bar> < 0.000001
                    then (if p \<ge> 0 then 0.000001 else - 0.000001) else p)
      in case fdiv 1 p_temp of
           Inl e \<Rightarrow> Inl e
         | Inr d \<Rightarrow> Inr (d, - d * d, - p_temp * p_temp, - 2 * p_temp))"

definition mapLog :: "real \<Rightarrow> error + (real \<times> real \<times> real \<times> real)" where
  "mapLog p =
     (let d = exp p; d_p = exp p
      in case fdiv 1 d of
           Inl e \<Rightarrow> Inl e
         | Inr p_d \<Rightarrow>
             (case fdiv (- 1) (d ^ 2) of
                Inl e \<Rightarrow> Inl e
              | Inr q \<Rightarrow> Inr (d, d_p, p_d, q * d_p)))"

definition mapHyperbolic :: "real \<Rightarrow> error + (real \<times> real \<times> real \<times> real)" where
  "mapHyperbolic p =
     (let d = sinh p; d_p = cosh p
      in case fdiv 1 (sqrt (d ^ 2 + 1)) of
           Inl e \<Rightarrow> Inl e
         | Inr p_d \<Rightarrow>
             (case fdiv (- d) ((d ^ 2 + 1) powr 1.5) of
                Inl e \<Rightarrow> Inl e
              | Inr q \<Rightarrow> Inr (d, d_p, p_d, q * d_p)))"

text \<open>\<^verbatim>\<open>DepthMap::map\<close>. The \<^verbatim>\<open>default\<close> branch of the source's switch is not reachable
  from the four values of the enum.\<close>

definition DepthMap_map :: "DepthMap \<Rightarrow> real \<Rightarrow> error + (real \<times> real \<times> real \<times> real)" where
  "DepthMap_map dm p =
     (case type dm of
        REGULAR \<Rightarrow> mapRegular p
      | INVERSE \<Rightarrow> mapInverse p
      | LOG \<Rightarrow> mapLog p
      | HYPERBOLIC \<Rightarrow> mapHyperbolic p)"

section \<open>StateAuxiliary\<close>

text \<open>
  The template arguments \<^verbatim>\<open>nMax\<close> (feature slots) and \<^verbatim>\<open>nCam\<close> (cameras) are
  arguments of the definitions that depend on them. An array of the source is a list of
  that length. \<^verbatim>\<open>BearingCorners\<close> (declared in \<^verbatim>\<open>rovio/commonVision.hpp\<close>, not under src/)
  is indexed with 0 and 1 by the constructor: a pair of 2-vectors.
\<close>

record StateAuxiliary =
  MwWMest :: V3D
  MwWMmeas :: V3D
  wMeasCov :: Mat
  A_red :: "Mat list"
  b_red :: "Vector2d list"
  bearingMeas :: "NormalVectorElement list"
  camID :: "int list"
  bearingCorners :: "(Vector2d \<times> Vector2d) list"
  qCM :: "QPD list"
  MrMC :: "V3D list"
  doVECalibration :: bool
  depthMap :: DepthMap
  depthTypeInt :: int
  activeFeature :: int
  activeCameraCounter :: int

text \<open>
  The constructor. Its two loops assign every entry of the arrays, so each array is the
  list of the values assigned. The member \<^verbatim>\<open>depthMap_\<close> is default-constructed before the
  body runs, and the body then calls \<^verbatim>\<open>setType(depthTypeInt_)\<close> on it (the \<^verbatim>\<open>int\<close>
  overload), right after \<^verbatim>\<open>depthTypeInt_ = 1\<close>; what the call prints (nothing, for a
  selector it knows) is not kept in the object.
\<close>

definition StateAuxiliary_ctor :: "nat \<Rightarrow> nat \<Rightarrow> StateAuxiliary" where
  "StateAuxiliary_ctor nMax nCam =
     (let depthTypeInt0 = 1 in
      \<lparr>MwWMest = (0, 0, 0),
       MwWMmeas = (0, 0, 0),
       wMeasCov = Mat_Identity,
       A_red = replicate nMax Mat_Identity,
       b_red = replicate nMax (0, 0),
       bearingMeas = replicate nMax NormalVectorElement_setIdentity,
       camID = replicate nMax 0,
       bearingCorners = replicate nMax ((0, 0), (0, 0)),
       qCM = replicate nCam QPD_setIdentity,
       MrMC = replicate nCam (0, 0, 0),
       doVECalibration = True,
       depthMap = fst (setType_int depthTypeInt0 DepthMap_default),
       depthTypeInt = depthTypeInt0,
       activeFeature = 0,
       activeCameraCounter = 0\<rparr>)"

section \<open>State\<close>

text \<open>
  The elements of the state, in the order of the index constants \<^verbatim>\<open>_pos\<close>, \<^verbatim>\<open>_vel\<close>,
  \<^verbatim>\<open>_acb\<close>, \<^verbatim>\<open>_gyb\<close>, \<^verbatim>\<open>_att\<close>, \<^verbatim>\<open>_vep\<close>, \<^verbatim>\<open>_vea\<close>, \<^verbatim>\<open>_dep\<close>, \<^verbatim>\<open>_nor\<close>, \<^verbatim>\<open>_aux\<close>.
  \<^verbatim>\<open>get<_dep>(i)\<close> of the source is \<open>dep s ! i\<close>.
\<close>

record State =
  pos :: V3D
  vel :: V3D
  acb :: V3D
  gyb :: V3D
  att :: QPD
  vep :: "V3D list"
  vea :: "QPD list"
  dep :: "real list"
  nor :: "NormalVectorElement list"
  aux :: StateAuxiliary

text \<open>The sizes the template instance \<^verbatim>\<open>State<nMax,nLevels,patchSize,nCam>\<close> gives its
  arrays.\<close>

definition State_wf :: "nat \<Rightarrow> nat \<Rightarrow> State \<Rightarrow> bool" where
  "State_wf nMax nCam s =
     (length (vep s) = nCam \<and> length (vea s) = nCam \<and>
      length (dep s) = nMax \<and> length (nor s) = nMax \<and>
      length (qCM (aux s)) = nCam \<and> length (MrMC (aux s)) = nCam)"

text \<open>
  Modelled from the spec: the dimension \<^verbatim>\<open>D_\<close> and the offsets \<^verbatim>\<open>getId<_dep>(i)\<close>,
  \<^verbatim>\<open>getId<_nor>(i)\<close> that \<^verbatim>\<open>LWF::State\<close> (lightweight_filtering, not under src/) derives
  from the element list. The spec: "total vector dimension equals the sum of all named
  block dimensions", with blocks at fixed offsets in the order of the elements. The
  tangent dimensions are 3 for a vector and for a quaternion, 1 for a depth parameter,
  2 for a bearing vector and 0 for the auxiliary element. The source computes them in
  \<^verbatim>\<open>unsigned int\<close>; a dense D_ by D_ matrix of doubles exists only for dimensions far
  below the wrap-around, which is therefore not written out.
\<close>

definition D :: "nat \<Rightarrow> nat \<Rightarrow> nat" where
  "D nMax nCam = 3 + 3 + 3 + 3 + 3 + 3 * nCam + 3 * nCam + nMax + 2 * nMax"

definition getId_dep :: "nat \<Rightarrow> nat \<Rightarrow> nat \<Rightarrow> nat" where
  "getId_dep nMax nCam i = 3 + 3 + 3 + 3 + 3 + 3 * nCam + 3 * nCam + i"

definition getId_nor :: "nat \<Rightarrow> nat \<Rightarrow> nat \<Rightarrow> nat" where
  "getId_nor nMax nCam i = 3 + 3 + 3 + 3 + 3 + 3 * nCam + 3 * nCam + nMax + 2 * i"

text \<open>The accessors take \<^verbatim>\<open>const int\<close> indices.\<close>

definition get_CfP :: "nat \<Rightarrow> State \<Rightarrow> int \<Rightarrow> error + V3D" where
  "get_CfP nMax s i =
     (if 0 \<le> i \<and> i < int nMax then Inr (getVec (nor s ! nat i)) else Inl OutOfBounds)"

definition get_qCM :: "nat \<Rightarrow> State \<Rightarrow> int \<Rightarrow> error + QPD" where
  "get_qCM nCam s camID0 =
     (if 0 \<le> camID0 \<and> camID0 < int nCam
      then (if doVECalibration (aux s) then Inr (vea s ! nat camID0)
            else Inr (qCM (aux s) ! nat camID0))
      else Inl OutOfBounds)"

definition get_MrMC :: "nat \<Rightarrow> State \<Rightarrow> int \<Rightarrow> error + V3D" where
  "get_MrMC nCam s camID0 =
     (if 0 \<le> camID0 \<and> camID0 < int nCam
      then (if doVECalibration (aux s) then Inr (vep s ! nat camID0)
            else Inr (MrMC (aux s) ! nat camID0))
      else Inl OutOfBounds)"

definition get_depth :: "nat \<Rightarrow> State \<Rightarrow> int \<Rightarrow> error + real" where
  "get_depth nMax s i =
     (if 0 \<le> i \<and> i < int nMax
      then (case DepthMap_map (depthMap (aux s)) (dep s ! nat i) of
              Inl e \<Rightarrow> Inl e
            | Inr (d, d_p, p_d, p_d_p) \<Rightarrow> Inr d)
      else Inl OutOfBounds)"

section \<open>FilterState\<close>

text \<open>
  The members the operations of this header read or write. The patch set and the images
  (\<^verbatim>\<open>mlps_\<close>, \<^verbatim>\<open>img_\<close>, \<^verbatim>\<open>patchDrawing_\<close>) are of types declared elsewhere and no operation
  here touches them.
\<close>

record FilterState =
  state :: State
  cov :: Mat
  usePredictionMerge :: bool
  imgTime :: real
  imageCounter :: int

definition initWithImuPose :: "V3D \<Rightarrow> QPD \<Rightarrow> FilterState \<Rightarrow> FilterState" where
  "initWithImuPose WrWM qMW fs =
     (let s1 = (state fs)\<lparr>pos := rotate qMW WrWM\<rparr>;
          s2 = s1\<lparr>att := inverted qMW\<rparr>
      in fs\<lparr>state := s2\<rparr>)"

definition initializeFeatureState ::
  "nat \<Rightarrow> nat \<Rightarrow> nat \<Rightarrow> V3D \<Rightarrow> real \<Rightarrow> Mat \<Rightarrow> FilterState \<Rightarrow> error + FilterState" where
  "initializeFeatureState nMax nCam i n d initCov fs =
     (if i < nMax then
        (let s1 = (state fs)\<lparr>dep := (dep (state fs))[i := d]\<rparr>;
             s2 = s1\<lparr>nor := (nor s1)[i := setFromVector n]\<rparr>;
             D0 = D nMax nCam;
             id_dep = getId_dep nMax nCam i;
             id_nor = getId_nor nMax nCam i;
             c1 = block_assign D0 1 0 id_dep Mat_Zero (cov fs);
             c2 = block_assign 1 D0 id_dep 0 Mat_Zero c1;
             c3 = block_assign D0 2 0 id_nor Mat_Zero c2;
             c4 = block_assign 2 D0 id_nor 0 Mat_Zero c3;
             c5 = block_assign 1 1 id_dep id_dep (block initCov 0 0) c4;
             c6 = block_assign 1 2 id_dep id_nor (block initCov 0 1) c5;
             c7 = block_assign 2 1 id_nor id_dep (block initCov 1 0) c6;
             c8 = block_assign 2 2 id_nor id_nor (block initCov 1 1) c7
         in Inr (fs\<lparr>state := s2, cov := c8\<rparr>))
      else Inl OutOfBounds)"

definition removeFeature :: "nat \<Rightarrow> nat \<Rightarrow> nat \<Rightarrow> FilterState \<Rightarrow> error + FilterState" where
  "removeFeature nMax nCam i fs =
     (if i < nMax then
        (let s1 = (state fs)\<lparr>dep := (dep (state fs))[i := 1]\<rparr>;
             s2 = s1\<lparr>nor := (nor s1)[i := NormalVectorElement_setIdentity]\<rparr>;
             D0 = D nMax nCam;
             id_dep = getId_dep nMax nCam i;
             id_nor = getId_nor nMax nCam i;
             c1 = block_assign D0 1 0 id_dep Mat_Zero (cov fs);
             c2 = block_assign 1 D0 id_dep 0 Mat_Zero c1;
             c3 = block_assign D0 2 0 id_nor Mat_Zero c2;
             c4 = block_assign 2 D0 id_nor 0 Mat_Zero c3;
             c5 = block_assign 1 1 id_dep id_dep Mat_Identity c4;
             c6 = block_assign 2 2 id_nor id_nor Mat_Identity c5
         in Inr (fs\<lparr>state := s2, cov := c6\<rparr>))
      else Inl OutOfBounds)"

section \<open>Fixtures\<close>

text \<open>
  A concrete filter state on which the operations are evaluated: the kinematic blocks are
  zero, the rotations are the identity, every slot holds the depth parameter 1 and the
  reference direction, the auxiliary element is the one the constructor builds, and the
  covariance is the identity.
\<close>

definition FilterState_example :: "nat \<Rightarrow> nat \<Rightarrow> FilterState" where
  "FilterState_example nMax nCam =
     \<lparr>state = \<lparr>pos = (0, 0, 0), vel = (0, 0, 0), acb = (0, 0, 0), gyb = (0, 0, 0),
               att = QPD_setIdentity,
               vep = replicate nCam (0, 0, 0),
               vea = replicate nCam QPD_setIdentity,
               dep = replicate nMax 1,
               nor = replicate nMax NormalVectorElement_setIdentity,
               aux = StateAuxiliary_ctor nMax nCam\<rparr>,
      cov = Mat_Identity,
      usePredictionMerge = True,
      imgTime = 0,
      imageCounter = 0\<rparr>"

text \<open>The covariance \<open>diag(0.1, 0.01, 0.01)\<close> in the order depth, bearing 1, bearing 2.\<close>

definition initCov_example :: Mat where
  "initCov_example = (\<lambda>r c. if r = c then (if r = 0 then 0.1 else 0.01) else 0)"

text \<open>
  The place of a covariance index in the block of slot \<open>i\<close>, in the order depth,
  bearing 1, bearing 2 of the 3 by 3 initial covariance; \<open>None\<close> for an index of another
  state dimension.
\<close>

definition slot_pos :: "nat \<Rightarrow> nat \<Rightarrow> nat \<Rightarrow> nat \<Rightarrow> nat option" where
  "slot_pos nMax nCam i k =
     (if k = getId_dep nMax nCam i then Some 0
      else if k = getId_nor nMax nCam i then Some 1
      else if k = getId_nor nMax nCam i + 1 then Some 2
      else None)"

text \<open>Reading the state after an operation that may have failed.\<close>

definition then_get :: "error + FilterState \<Rightarrow> (State \<Rightarrow> error + 'a) \<Rightarrow> error + 'a" where
  "then_get r f = (case r of Inl e \<Rightarrow> Inl e | Inr fs \<Rightarrow> f (state fs))"

section \<open>Facts about the depth maps and the constructor\<close>

lemma mapInverse_value:
  "mapInverse p =
     (let p_temp = (if \<bar>p\<bar> < 0.000001 then (if p \<ge> 0 then 0.000001 else - 0.000001) else p)
      in Inr (1 / p_temp, - (1 / p_temp) * (1 / p_temp), - p_temp * p_temp, - 2 * p_temp))"
  by (simp add: mapInverse_def fdiv_def Let_def)

lemma StateAuxiliary_ctor_depthMap:
  "depthMap (StateAuxiliary_ctor nMax nCam) = \<lparr>type = INVERSE\<rparr>"
  by (simp add: StateAuxiliary_ctor_def setType_int_def DepthMap_default_def DepthMap_ctor_def
      setType_def)

lemma State_wf_example: "State_wf nMax nCam (state (FilterState_example nMax nCam))"
  by (simp add: State_wf_def FilterState_example_def StateAuxiliary_ctor_def)

lemma mapLog_value:
  "mapLog p = Inr (exp p, exp p, 1 / exp p, (- 1 / (exp p) ^ 2) * exp p)"
  by (simp add: mapLog_def fdiv_def Let_def)

lemma mapHyperbolic_value:
  "mapHyperbolic p =
     Inr (sinh p, cosh p, 1 / sqrt ((sinh p) ^ 2 + 1),
          (- sinh p / ((sinh p) ^ 2 + 1) powr 1.5) * cosh p)"
proof -
  have pos: "0 < (sinh p) ^ 2 + 1"
    by (rule add_nonneg_pos) simp_all
  then have "sqrt ((sinh p) ^ 2 + 1) \<noteq> 0" and "((sinh p) ^ 2 + 1) powr 1.5 \<noteq> 0"
    by simp_all
  then show ?thesis
    by (simp add: mapHyperbolic_def fdiv_def Let_def)
qed

lemma DepthMap_map_one_pos:
  "\<exists>d d_p p_d p_d_p. DepthMap_map dm 1 = Inr (d, d_p, p_d, p_d_p) \<and> 0 < d"
  by (cases "type dm")
    (simp_all add: DepthMap_map_def mapRegular_def mapInverse_value mapLog_value
      mapHyperbolic_value)

section \<open>Facts about the bearing vector\<close>

lemma V3D_norm_setFromVector:
  assumes "n \<noteq> (0, 0, 0)"
  shows "V3D_norm (getVec (setFromVector n)) = 1"
proof -
  obtain x y z where n: "n = (x, y, z)" by (cases n) auto
  define S where "S = x * x + y * y + z * z"
  define k where "k = 1 / sqrt S"
  have "x \<noteq> 0 \<or> y \<noteq> 0 \<or> z \<noteq> 0" using assms n by simp
  then have "x * x + y * y + z * z \<noteq> 0"
    by (simp add: add_nonneg_eq_0_iff)
  moreover have "0 \<le> x * x + y * y + z * z" by simp
  ultimately have Spos: "0 < S" unfolding S_def by linarith
  have "k * k = 1 / (sqrt S * sqrt S)" by (simp add: k_def)
  also have "\<dots> = 1 / S" using Spos by simp
  finally have kk: "k * k = 1 / S" .
  have "(k * x) * (k * x) + (k * y) * (k * y) + (k * z) * (k * z) = (k * k) * S"
    by (simp add: S_def algebra_simps)
  also have "\<dots> = 1" using kk Spos by simp
  finally have one: "(k * x) * (k * x) + (k * y) * (k * y) + (k * z) * (k * z) = 1" .
  have "V3D_norm (getVec (setFromVector n)) =
          sqrt ((k * x) * (k * x) + (k * y) * (k * y) + (k * z) * (k * z))"
    by (simp add: setFromVector_def V3D_norm_def V3D_scale_def n S_def k_def)
  then show ?thesis using one by simp
qed

lemma setFromVector_unit_z: "setFromVector (0, 0, 1) = NormalVectorElement (0, 0, 1)"
  by (simp add: setFromVector_def V3D_norm_def V3D_scale_def)

section \<open>Facts about the feature lifecycle\<close>

lemma slot_distinct:
  "i < nMax \<Longrightarrow> getId_dep nMax nCam i < getId_nor nMax nCam i"
  by (simp add: getId_dep_def getId_nor_def)

lemma slot_in_range:
  "i < nMax \<Longrightarrow>
   getId_dep nMax nCam i < D nMax nCam \<and> getId_nor nMax nCam i + 1 < D nMax nCam"
  by (simp add: getId_dep_def getId_nor_def D_def)

lemma FilterState_eqI:
  fixes a b :: FilterState
  assumes "state a = state b" and "\<And>r c. cov a r c = cov b r c"
    and "usePredictionMerge a = usePredictionMerge b" and "imgTime a = imgTime b"
    and "imageCounter a = imageCounter b"
  shows "a = b"
proof -
  have "cov a = cov b" using assms(2) by (simp add: fun_eq_iff)
  with assms show ?thesis by simp
qed

lemma initializeFeatureState_returns:
  "i < nMax \<Longrightarrow> \<exists>fs'. initializeFeatureState nMax nCam i n d initCov fs = Inr fs'"
  by (simp add: initializeFeatureState_def Let_def)

lemma initializeFeatureState_state:
  assumes "initializeFeatureState nMax nCam i n d initCov fs = Inr fs'"
  shows "state fs' = (state fs)\<lparr>dep := (dep (state fs))[i := d],
                                nor := (nor (state fs))[i := setFromVector n]\<rparr>"
    and "usePredictionMerge fs' = usePredictionMerge fs"
    and "imgTime fs' = imgTime fs"
    and "imageCounter fs' = imageCounter fs"
  using assms by (auto simp add: initializeFeatureState_def Let_def split: if_splits)

lemma initializeFeatureState_cov:
  assumes "i < nMax" and "initializeFeatureState nMax nCam i n d initCov fs = Inr fs'"
    and "r < D nMax nCam" and "c < D nMax nCam"
  shows "cov fs' r c =
          (case (slot_pos nMax nCam i r, slot_pos nMax nCam i c) of
             (Some a, Some b) \<Rightarrow> initCov a b
           | (None, None) \<Rightarrow> cov fs r c
           | _ \<Rightarrow> 0)"
proof -
  have "cov fs' =
    (let D0 = D nMax nCam;
         id_dep = getId_dep nMax nCam i;
         id_nor = getId_nor nMax nCam i;
         c1 = block_assign D0 1 0 id_dep Mat_Zero (cov fs);
         c2 = block_assign 1 D0 id_dep 0 Mat_Zero c1;
         c3 = block_assign D0 2 0 id_nor Mat_Zero c2;
         c4 = block_assign 2 D0 id_nor 0 Mat_Zero c3;
         c5 = block_assign 1 1 id_dep id_dep (block initCov 0 0) c4;
         c6 = block_assign 1 2 id_dep id_nor (block initCov 0 1) c5;
         c7 = block_assign 2 1 id_nor id_dep (block initCov 1 0) c6
     in block_assign 2 2 id_nor id_nor (block initCov 1 1) c7)"
    using assms(1,2) by (auto simp add: initializeFeatureState_def Let_def)
  then show ?thesis
    using assms(1,3,4) slot_distinct [OF assms(1), of nCam]
    by (auto simp add: Let_def block_assign_def block_def Mat_Zero_def slot_pos_def
        numeral_2_eq_2 split: option.splits)
qed

lemma removeFeature_returns:
  "i < nMax \<Longrightarrow> \<exists>fs'. removeFeature nMax nCam i fs = Inr fs'"
  by (simp add: removeFeature_def Let_def)

lemma removeFeature_state:
  assumes "removeFeature nMax nCam i fs = Inr fs'"
  shows "state fs' = (state fs)\<lparr>dep := (dep (state fs))[i := 1],
                                nor := (nor (state fs))[i := NormalVectorElement_setIdentity]\<rparr>"
    and "usePredictionMerge fs' = usePredictionMerge fs"
    and "imgTime fs' = imgTime fs"
    and "imageCounter fs' = imageCounter fs"
  using assms by (auto simp add: removeFeature_def Let_def split: if_splits)

lemma removeFeature_cov:
  assumes "i < nMax" and "removeFeature nMax nCam i fs = Inr fs'"
    and "r < D nMax nCam" and "c < D nMax nCam"
  shows "cov fs' r c =
          (if slot_pos nMax nCam i r = None \<and> slot_pos nMax nCam i c = None then cov fs r c
           else if r = c then 1 else 0)"
proof -
  have "cov fs' =
    (let D0 = D nMax nCam;
         id_dep = getId_dep nMax nCam i;
         id_nor = getId_nor nMax nCam i;
         c1 = block_assign D0 1 0 id_dep Mat_Zero (cov fs);
         c2 = block_assign 1 D0 id_dep 0 Mat_Zero c1;
         c3 = block_assign D0 2 0 id_nor Mat_Zero c2;
         c4 = block_assign 2 D0 id_nor 0 Mat_Zero c3;
         c5 = block_assign 1 1 id_dep id_dep Mat_Identity c4
     in block_assign 2 2 id_nor id_nor Mat_Identity c5)"
    using assms(1,2) by (auto simp add: removeFeature_def Let_def)
  then show ?thesis
    using assms(1,3,4) slot_distinct [OF assms(1), of nCam]
    by (auto simp add: Let_def block_assign_def Mat_Zero_def Mat_Identity_def slot_pos_def)
qed

lemma get_depth_removed:
  assumes "i < nMax" and "State_wf nMax nCam (state fs)"
    and "removeFeature nMax nCam i fs = Inr fs'"
  shows "\<exists>dv. get_depth nMax (state fs') (int i) = Inr dv \<and> 0 < dv"
proof -
  have len: "i < length (dep (state fs))"
    using assms(1,2) by (simp add: State_wf_def)
  have st: "dep (state fs') ! i = 1" and ax: "aux (state fs') = aux (state fs)"
    using removeFeature_state(1) [OF assms(3)] len by simp_all
  obtain dv d_p p_d p_d_p
    where m: "DepthMap_map (depthMap (aux (state fs))) 1 = Inr (dv, d_p, p_d, p_d_p)"
      and "0 < dv"
    using DepthMap_map_one_pos by blast
  then show ?thesis
    using assms(1) st ax by (simp add: get_depth_def)
qed

lemma initWithImuPose_state:
  "pos (state (initWithImuPose WrWM qMW fs)) = rotate qMW WrWM \<and>
   att (state (initWithImuPose WrWM qMW fs)) = inverted qMW"
  by (simp add: initWithImuPose_def Let_def)

section \<open>The claims\<close>

text \<open>
  C7. Under the Inverse encoding, a parameter \<open>p\<close> with \<open>\<bar>p\<bar> < 1e-6\<close> is mapped to
  exactly the tuple \<open>(d, d_p, p_d, p_d_p)\<close> of the clamped value of the same sign
  (\<open>1e-6\<close> when \<open>p \<ge> 0\<close>, \<open>- 1e-6\<close> when \<open>p < 0\<close>); and for every real parameter the
  division is by a number that is not zero, so that \<^verbatim>\<open>DepthMap::map\<close> returns a finite tuple.
\<close>

theorem mapInverse_clamped:
  "(\<bar>p\<bar> < 0.000001 \<longrightarrow>
      DepthMap_map \<lparr>type = INVERSE\<rparr> p =
      DepthMap_map \<lparr>type = INVERSE\<rparr> (if p \<ge> 0 then 0.000001 else - 0.000001)) \<and>
   (\<exists>d d_p p_d p_d_p. DepthMap_map \<lparr>type = INVERSE\<rparr> p = Inr (d, d_p, p_d, p_d_p))"
  by (simp add: DepthMap_map_def mapInverse_value Let_def)

theorem mapInverse_clamped_witness:
  "\<bar>0.0000002 :: real\<bar> < 0.000001 \<and>
   DepthMap_map \<lparr>type = INVERSE\<rparr> 0.0000002 =
     Inr (1000000, - 1000000000000, - 0.000000000001, - 0.000002)"
  using mapInverse_clamped [of "0.0000002"]
  by (simp add: DepthMap_map_def mapInverse_value Let_def)

text \<open>
  C6, as the claim states it, fails: \<^verbatim>\<open>setType(7)\<close> on a map configured as Inverse is not
  rejected. The call returns normally and the encoding has become the default, Regular.
\<close>

theorem setType_int_invalid_counterexample:
  "fst (setType_int 7 \<lparr>type = INVERSE\<rparr>) = \<lparr>type = REGULAR\<rparr> \<and>
   fst (setType_int 7 \<lparr>type = INVERSE\<rparr>) \<noteq> \<lparr>type = INVERSE\<rparr>"
  by (simp add: setType_int_def)

text \<open>
  C6, amended. \<^verbatim>\<open>setType\<close> with an integer outside 0, 1, 2, 3 writes one line to the
  standard output, "Invalid type for depth parameterization: " followed by the integer,
  and then sets the encoding to Regular; the call does not fail.
\<close>

theorem setType_int_invalid:
  "t \<notin> {0, 1, 2, 3} \<Longrightarrow>
   setType_int t dm =
     (dm\<lparr>type := REGULAR\<rparr>, [(''Invalid type for depth parameterization: '', t)])"
  by (simp add: setType_int_def)

theorem setType_int_invalid_witness:
  "(7::int) \<notin> {0, 1, 2, 3} \<and>
   setType_int 7 \<lparr>type = LOG\<rparr> =
     (\<lparr>type = REGULAR\<rparr>, [(''Invalid type for depth parameterization: '', 7)])"
  using setType_int_invalid [of 7 "\<lparr>type = LOG\<rparr>"] by simp

text \<open>
  C10. The \<^verbatim>\<open>StateAuxiliary\<close> constructor sets \<^verbatim>\<open>depthTypeInt_\<close> to 1 and configures
  \<^verbatim>\<open>depthMap_\<close> with it, so the encoding of a fresh state is Inverse, where the
  \<^verbatim>\<open>DepthMap\<close> constructor alone gives Regular. A state that carries this auxiliary
  element reads the depth parameter \<open>p\<close> of a slot as the depth \<open>1 / p\<close> (with \<open>p\<close>
  clamped away from zero).
\<close>

theorem StateAuxiliary_ctor_inverse:
  "depthTypeInt (StateAuxiliary_ctor nMax nCam) = 1 \<and>
   type (depthMap (StateAuxiliary_ctor nMax nCam)) = INVERSE \<and>
   type DepthMap_default = REGULAR \<and>
   (State_wf nMax nCam s \<and> aux s = StateAuxiliary_ctor nMax nCam \<and> 0 \<le> i \<and> i < int nMax \<longrightarrow>
      get_depth nMax s i =
        Inr (1 / (if \<bar>dep s ! nat i\<bar> < 0.000001
                  then (if dep s ! nat i \<ge> 0 then 0.000001 else - 0.000001)
                  else dep s ! nat i)))"
  by (simp add: StateAuxiliary_ctor_depthMap get_depth_def DepthMap_map_def mapInverse_value
      Let_def DepthMap_default_def DepthMap_ctor_def setType_def)
    (simp add: StateAuxiliary_ctor_def)

theorem StateAuxiliary_ctor_inverse_witness:
  "State_wf 2 1 ((state (FilterState_example 2 1))\<lparr>dep := [4, 5]\<rparr>) \<and>
   aux ((state (FilterState_example 2 1))\<lparr>dep := [4, 5]\<rparr>) = StateAuxiliary_ctor 2 1 \<and>
   (0::int) \<le> 1 \<and> (1::int) < int 2 \<and>
   get_depth 2 ((state (FilterState_example 2 1))\<lparr>dep := [4, 5]\<rparr>) 1 = Inr (1 / 5)"
proof -
  let ?s = "(state (FilterState_example 2 1))\<lparr>dep := [4, 5]\<rparr>"
  have wf: "State_wf 2 1 ?s"
    using State_wf_example [of 2 1] by (simp add: State_wf_def)
  have ax: "aux ?s = StateAuxiliary_ctor 2 1"
    by (simp add: FilterState_example_def)
  from StateAuxiliary_ctor_inverse [of 2 1 ?s 1] wf ax
  have "get_depth 2 ?s 1 = Inr (1 / 5)" by simp
  with wf ax show ?thesis by simp
qed

text \<open>
  C5. For a camera index \<open>0 \<le> c < nCam\<close>, \<^verbatim>\<open>get_qCM\<close> and \<^verbatim>\<open>get_MrMC\<close> return the
  state blocks \<^verbatim>\<open>_vea\<close> and \<^verbatim>\<open>_vep\<close> when \<^verbatim>\<open>doVECalibration_\<close> is true and the cached
  \<^verbatim>\<open>qCM_[c]\<close> and \<^verbatim>\<open>MrMC_[c]\<close> when it is false, also after the flag has been set to
  the other value; one flag decides for every camera.
\<close>

theorem get_qCM_get_MrMC_mode:
  assumes "State_wf nMax nCam s" and "0 \<le> c" and "c < int nCam"
  shows "get_qCM nCam s c =
           Inr (if doVECalibration (aux s) then vea s ! nat c else qCM (aux s) ! nat c) \<and>
         get_MrMC nCam s c =
           Inr (if doVECalibration (aux s) then vep s ! nat c else MrMC (aux s) ! nat c) \<and>
         get_qCM nCam (s\<lparr>aux := (aux s)\<lparr>doVECalibration := True\<rparr>\<rparr>) c = Inr (vea s ! nat c) \<and>
         get_MrMC nCam (s\<lparr>aux := (aux s)\<lparr>doVECalibration := True\<rparr>\<rparr>) c = Inr (vep s ! nat c) \<and>
         get_qCM nCam (s\<lparr>aux := (aux s)\<lparr>doVECalibration := False\<rparr>\<rparr>) c =
           Inr (qCM (aux s) ! nat c) \<and>
         get_MrMC nCam (s\<lparr>aux := (aux s)\<lparr>doVECalibration := False\<rparr>\<rparr>) c =
           Inr (MrMC (aux s) ! nat c)"
  using assms by (simp add: get_qCM_def get_MrMC_def)


theorem get_qCM_get_MrMC_mode_witness:
  "State_wf 1 2 ((state (FilterState_example 1 2))\<lparr>vep := [(1, 0, 0), (2, 0, 0)]\<rparr>) \<and>
   (0::int) \<le> 1 \<and> (1::int) < int 2 \<and>
   get_MrMC 2 ((state (FilterState_example 1 2))\<lparr>vep := [(1, 0, 0), (2, 0, 0)]\<rparr>) 1
     = Inr (2, 0, 0) \<and>
   get_MrMC 2 ((state (FilterState_example 1 2))
       \<lparr>vep := [(1, 0, 0), (2, 0, 0)],
        aux := (aux (state (FilterState_example 1 2)))\<lparr>doVECalibration := False\<rparr>\<rparr>) 1
     = Inr (0, 0, 0)"
proof -
  let ?s = "(state (FilterState_example 1 2))\<lparr>vep := [(1, 0, 0), (2, 0, 0)]\<rparr>"
  have h1: "State_wf 1 2 ?s"
    using State_wf_example [of 1 2] by (simp add: State_wf_def)
  have h2: "(0::int) \<le> 1" and h3: "(1::int) < int 2" by simp_all
  have f: "doVECalibration (aux ?s)" "MrMC (aux ?s) = [(0, 0, 0), (0, 0, 0)]"
    by (simp_all add: FilterState_example_def StateAuxiliary_ctor_def numeral_2_eq_2)
  from get_qCM_get_MrMC_mode [OF h1 h2 h3] f h1 show ?thesis by simp
qed

text \<open>
  C2. For a slot \<open>i < nMax\<close>, \<^verbatim>\<open>initializeFeatureState(i, n, d, initCov)\<close> sets the depth
  parameter of the slot to \<open>d\<close> and its bearing block to \<open>n\<close> normalized; every
  covariance entry between one of the slot's three rows or columns and another state
  dimension becomes zero; the slot's own 3 by 3 block is \<open>initCov\<close> in the order depth,
  bearing 1, bearing 2; every other covariance entry, every other slot, every other
  state block and the other members of the filter state are left as they were.
\<close>

theorem initializeFeatureState_effect:
  assumes "i < nMax" and "State_wf nMax nCam (state fs)"
  shows "\<exists>fs'. initializeFeatureState nMax nCam i n d initCov fs = Inr fs' \<and>
           dep (state fs') ! i = d \<and>
           nor (state fs') ! i = setFromVector n \<and>
           getVec (nor (state fs') ! i) = V3D_scale (1 / V3D_norm n) n \<and>
           (n \<noteq> (0, 0, 0) \<longrightarrow> V3D_norm (getVec (nor (state fs') ! i)) = 1) \<and>
           state fs' = (state fs)\<lparr>dep := (dep (state fs))[i := d],
                                    nor := (nor (state fs))[i := setFromVector n]\<rparr> \<and>
           (\<forall>j. j \<noteq> i \<longrightarrow> dep (state fs') ! j = dep (state fs) ! j \<and>
                          nor (state fs') ! j = nor (state fs) ! j) \<and>
           usePredictionMerge fs' = usePredictionMerge fs \<and>
           imgTime fs' = imgTime fs \<and>
           imageCounter fs' = imageCounter fs \<and>
           (\<forall>r < D nMax nCam. \<forall>c < D nMax nCam.
              cov fs' r c =
                (case (slot_pos nMax nCam i r, slot_pos nMax nCam i c) of
                   (Some a, Some b) \<Rightarrow> initCov a b
                 | (None, None) \<Rightarrow> cov fs r c
                 | _ \<Rightarrow> 0))"
proof -
  obtain fs' where r: "initializeFeatureState nMax nCam i n d initCov fs = Inr fs'"
    using initializeFeatureState_returns [OF assms(1)] by blast
  have len: "i < length (dep (state fs))" "i < length (nor (state fs))"
    using assms by (simp_all add: State_wf_def)
  note st = initializeFeatureState_state [OF r]
  have 1: "dep (state fs') ! i = d" using st(1) len by simp
  have 2: "nor (state fs') ! i = setFromVector n" using st(1) len by simp
  have 3: "getVec (nor (state fs') ! i) = V3D_scale (1 / V3D_norm n) n"
    using 2 by (simp add: setFromVector_def)
  have 4: "n \<noteq> (0, 0, 0) \<longrightarrow> V3D_norm (getVec (nor (state fs') ! i)) = 1"
    using 2 V3D_norm_setFromVector by simp
  have 5: "\<forall>j. j \<noteq> i \<longrightarrow> dep (state fs') ! j = dep (state fs) ! j \<and>
                          nor (state fs') ! j = nor (state fs) ! j"
    using st(1) by simp
  have 6: "\<forall>r < D nMax nCam. \<forall>c < D nMax nCam.
              cov fs' r c =
                (case (slot_pos nMax nCam i r, slot_pos nMax nCam i c) of
                   (Some a, Some b) \<Rightarrow> initCov a b
                 | (None, None) \<Rightarrow> cov fs r c
                 | _ \<Rightarrow> 0)"
    using initializeFeatureState_cov [OF assms(1) r] by blast
  from r 1 2 3 4 5 6 st show ?thesis by blast
qed

theorem initializeFeatureState_effect_witness:
  "(1::nat) < 2 \<and> State_wf 2 1 (state (FilterState_example 2 1)) \<and>
   (\<exists>fs'. initializeFeatureState 2 1 1 (0, 0, 2) 3 initCov_example (FilterState_example 2 1)
             = Inr fs' \<and>
      dep (state fs') = [1, 3] \<and>
      getVec (nor (state fs') ! 1) = (0, 0, 1) \<and>
      cov fs' 22 22 = 0.1 \<and> cov fs' 25 25 = 0.01 \<and> cov fs' 25 26 = 0 \<and>
      cov fs' 22 23 = 0 \<and> cov fs' 0 22 = 0 \<and> cov fs' 0 0 = 1)"
proof -
  have h1: "(1::nat) < 2" by simp
  have h2: "State_wf 2 1 (state (FilterState_example 2 1))" by (rule State_wf_example)
  from initializeFeatureState_effect [OF h1 h2, of "(0, 0, 2)" 3 initCov_example]
  obtain fs' where r: "initializeFeatureState 2 1 1 (0, 0, 2) 3 initCov_example
        (FilterState_example 2 1) = Inr fs'"
    and d: "state fs' = (state (FilterState_example 2 1))
          \<lparr>dep := (dep (state (FilterState_example 2 1)))[1 := 3],
           nor := (nor (state (FilterState_example 2 1)))[1 := setFromVector (0, 0, 2)]\<rparr>"
    and v: "getVec (nor (state fs') ! 1) = V3D_scale (1 / V3D_norm (0, 0, 2)) (0, 0, 2)"
    and c: "\<forall>r < D 2 1. \<forall>c < D 2 1.
              cov fs' r c =
                (case (slot_pos 2 1 1 r, slot_pos 2 1 1 c) of
                   (Some a, Some b) \<Rightarrow> initCov_example a b
                 | (None, None) \<Rightarrow> cov (FilterState_example 2 1) r c
                 | _ \<Rightarrow> 0)"
    by blast
  have Dv: "D 2 1 = 27" by (simp add: D_def)
  have sp: "slot_pos 2 1 1 22 = Some 0" "slot_pos 2 1 1 25 = Some 1" "slot_pos 2 1 1 26 = Some 2"
    "slot_pos 2 1 1 23 = None" "slot_pos 2 1 1 0 = None"
    by (simp_all add: slot_pos_def getId_dep_def getId_nor_def)
  have d': "dep (state fs') = [1, 3]"
    using d by (simp add: FilterState_example_def numeral_2_eq_2)
  have v': "getVec (nor (state fs') ! 1) = (0, 0, 1)"
    using v by (simp add: V3D_scale_def V3D_norm_def)
  have c1: "cov fs' 22 22 = 0.1" using c Dv sp by (simp add: initCov_example_def)
  have c2: "cov fs' 25 25 = 0.01" using c Dv sp by (simp add: initCov_example_def)
  have c3: "cov fs' 25 26 = 0" using c Dv sp by (simp add: initCov_example_def)
  have c4: "cov fs' 22 23 = 0" using c Dv sp by simp
  have c5: "cov fs' 0 22 = 0" using c Dv sp by simp
  have c6: "cov fs' 0 0 = 1" using c Dv sp by (simp add: FilterState_example_def Mat_Identity_def)
  from h1 h2 r d' v' c1 c2 c3 c4 c5 c6 show ?thesis by blast
qed

text \<open>
  C3. For a slot \<open>i < nMax\<close>, \<^verbatim>\<open>removeFeature(i)\<close> sets the depth parameter of the slot
  to 1 and its bearing block to the reference direction; every covariance entry in one of
  the slot's rows or columns is that of the identity matrix, so the cross-covariance with
  every other dimension is zero and the slot's own 1 by 1 depth block and 2 by 2 bearing
  block are identity blocks; afterwards \<^verbatim>\<open>get_depth(i)\<close> returns a finite, positive depth,
  whichever of the four encodings is configured.
\<close>

theorem removeFeature_effect:
  assumes "i < nMax" and "State_wf nMax nCam (state fs)"
  shows "\<exists>fs'. removeFeature nMax nCam i fs = Inr fs' \<and>
           dep (state fs') ! i = 1 \<and>
           nor (state fs') ! i = NormalVectorElement_setIdentity \<and>
           (\<forall>r < D nMax nCam. \<forall>c < D nMax nCam.
              slot_pos nMax nCam i r \<noteq> None \<or> slot_pos nMax nCam i c \<noteq> None \<longrightarrow>
              cov fs' r c = (if r = c then 1 else 0)) \<and>
           block (cov fs') (getId_dep nMax nCam i) (getId_dep nMax nCam i) 0 0 = 1 \<and>
           (\<forall>a < 2. \<forall>b < 2.
              block (cov fs') (getId_nor nMax nCam i) (getId_nor nMax nCam i) a b =
              Mat_Identity a b) \<and>
           (\<exists>dv. get_depth nMax (state fs') (int i) = Inr dv \<and> 0 < dv)"
proof -
  obtain fs' where r: "removeFeature nMax nCam i fs = Inr fs'"
    using removeFeature_returns [OF assms(1)] by blast
  have len: "i < length (dep (state fs))" "i < length (nor (state fs))"
    using assms by (simp_all add: State_wf_def)
  note st = removeFeature_state [OF r]
  note cv = removeFeature_cov [OF assms(1) r]
  note rg = slot_in_range [OF assms(1), of nCam]
  have 1: "dep (state fs') ! i = 1" using st(1) len by simp
  have 2: "nor (state fs') ! i = NormalVectorElement_setIdentity" using st(1) len by simp
  have 3: "\<forall>r < D nMax nCam. \<forall>c < D nMax nCam.
              slot_pos nMax nCam i r \<noteq> None \<or> slot_pos nMax nCam i c \<noteq> None \<longrightarrow>
              cov fs' r c = (if r = c then 1 else 0)"
    using cv by auto
  have 4: "block (cov fs') (getId_dep nMax nCam i) (getId_dep nMax nCam i) 0 0 = 1"
    using cv [of "getId_dep nMax nCam i" "getId_dep nMax nCam i"] rg
    by (simp add: block_def slot_pos_def)
  have 5: "block (cov fs') (getId_nor nMax nCam i) (getId_nor nMax nCam i) a b =
              Mat_Identity a b" if "a < 2" "b < 2" for a b
  proof -
    have lt: "getId_nor nMax nCam i + a < D nMax nCam" "getId_nor nMax nCam i + b < D nMax nCam"
      using rg that by simp_all
    have ne: "slot_pos nMax nCam i (getId_nor nMax nCam i + a) \<noteq> None"
      using that(1) by (cases "a = 0") (auto simp add: slot_pos_def)
    have "cov fs' (getId_nor nMax nCam i + a) (getId_nor nMax nCam i + b) =
            (if a = b then 1 else 0)"
      using cv [OF lt] ne by simp
    then show ?thesis
      by (simp add: block_def Mat_Identity_def)
  qed
  note 6 = get_depth_removed [OF assms r]
  from r 1 2 3 4 5 6 show ?thesis by blast
qed

theorem removeFeature_effect_witness:
  "(1::nat) < 2 \<and> State_wf 2 1 (state (FilterState_example 2 1)\<lparr>dep := [4, 5]\<rparr>) \<and>
   (\<exists>fs'. removeFeature 2 1 1 ((FilterState_example 2 1)
              \<lparr>state := (state (FilterState_example 2 1))\<lparr>dep := [4, 5]\<rparr>\<rparr>) = Inr fs' \<and>
      dep (state fs') ! 1 = 1 \<and> cov fs' 22 22 = 1 \<and> cov fs' 22 25 = 0 \<and>
      get_depth 2 (state fs') 1 = Inr 1)"
proof -
  let ?fs = "(FilterState_example 2 1)\<lparr>state := (state (FilterState_example 2 1))\<lparr>dep := [4, 5]\<rparr>\<rparr>"
  have h1: "(1::nat) < 2" by simp
  have h2: "State_wf 2 1 (state ?fs)"
    using State_wf_example [of 2 1] by (simp add: State_wf_def)
  from removeFeature_effect [OF h1 h2]
  obtain fs' where r: "removeFeature 2 1 1 ?fs = Inr fs'"
    and d: "dep (state fs') ! 1 = 1"
    and c: "\<forall>r < D 2 1. \<forall>c < D 2 1.
              slot_pos 2 1 1 r \<noteq> None \<or> slot_pos 2 1 1 c \<noteq> None \<longrightarrow>
              cov fs' r c = (if r = c then 1 else 0)"
    by blast
  have Dv: "D 2 1 = 27" by (simp add: D_def)
  have sp: "slot_pos 2 1 1 22 = Some 0" "slot_pos 2 1 1 25 = Some 1"
    by (simp_all add: slot_pos_def getId_dep_def getId_nor_def)
  have c1: "cov fs' 22 22 = 1" using c Dv sp by simp
  have c2: "cov fs' 22 25 = 0" using c Dv sp by simp
  have ax: "depthMap (aux (state fs')) = \<lparr>type = INVERSE\<rparr>"
    using removeFeature_state(1) [OF r]
    by (simp add: FilterState_example_def StateAuxiliary_ctor_depthMap)
  have g: "get_depth 2 (state fs') 1 = Inr 1"
    using d ax by (simp add: get_depth_def DepthMap_map_def mapInverse_value)
  from h1 h2 r d c1 c2 g show ?thesis by auto
qed

text \<open>
  C4. For a slot \<open>i < nMax\<close>, \<^verbatim>\<open>removeFeature(i)\<close> followed by
  \<^verbatim>\<open>initializeFeatureState(i, b, d, initCov)\<close> gives the same filter state, covariance
  included, as \<^verbatim>\<open>initializeFeatureState(i, b, d, initCov)\<close> alone on the starting state.
\<close>

theorem removeFeature_then_initializeFeatureState:
  assumes "i < nMax"
  shows "\<exists>fs1. removeFeature nMax nCam i fs = Inr fs1 \<and>
           initializeFeatureState nMax nCam i b d initCov fs1 =
           initializeFeatureState nMax nCam i b d initCov fs"
proof -
  have lt: "getId_dep nMax nCam i < getId_nor nMax nCam i"
    using assms by (rule slot_distinct)
  obtain fs1 where r: "removeFeature nMax nCam i fs = Inr fs1"
    using removeFeature_returns [OF assms] by blast
  obtain x where x: "initializeFeatureState nMax nCam i b d initCov fs1 = Inr x"
    using initializeFeatureState_returns [OF assms] by blast
  obtain y where y: "initializeFeatureState nMax nCam i b d initCov fs = Inr y"
    using initializeFeatureState_returns [OF assms] by blast
  note sx = initializeFeatureState_state [OF x]
  note sy = initializeFeatureState_state [OF y]
  note s1 = removeFeature_state [OF r]
  have "x = y"
  proof (rule FilterState_eqI)
    show "state x = state y"
      using sx(1) sy(1) s1(1) by simp
    show "usePredictionMerge x = usePredictionMerge y"
      using sx(2) sy(2) s1(2) by simp
    show "imgTime x = imgTime y"
      using sx(3) sy(3) s1(3) by simp
    show "imageCounter x = imageCounter y"
      using sx(4) sy(4) s1(4) by simp
    show "cov x r c = cov y r c" for r c
      using r x y assms lt
      by (auto simp add: removeFeature_def initializeFeatureState_def Let_def
          block_assign_def Mat_Zero_def Mat_Identity_def)
  qed
  with r x y show ?thesis by simp
qed

theorem removeFeature_then_initializeFeatureState_witness:
  "(1::nat) < 2 \<and>
   (\<exists>fs1. removeFeature 2 1 1 (FilterState_example 2 1) = Inr fs1 \<and>
      initializeFeatureState 2 1 1 (0, 0, 2) 3 initCov_example fs1 =
      initializeFeatureState 2 1 1 (0, 0, 2) 3 initCov_example (FilterState_example 2 1) \<and>
      then_get (initializeFeatureState 2 1 1 (0, 0, 2) 3 initCov_example fs1)
        (\<lambda>s. Inr (dep s)) = Inr [1, 3])"
proof -
  have h1: "(1::nat) < 2" by simp
  from removeFeature_then_initializeFeatureState [OF h1]
  obtain fs1 where r: "removeFeature 2 1 1 (FilterState_example 2 1) = Inr fs1"
    and e: "initializeFeatureState 2 1 1 (0, 0, 2) 3 initCov_example fs1 =
      initializeFeatureState 2 1 1 (0, 0, 2) 3 initCov_example (FilterState_example 2 1)"
    by blast
  have "then_get (initializeFeatureState 2 1 1 (0, 0, 2) 3 initCov_example
           (FilterState_example 2 1)) (\<lambda>s. Inr (dep s)) = Inr [1, 3]"
    by (simp add: then_get_def initializeFeatureState_def Let_def FilterState_example_def
        numeral_2_eq_2)
  with r e h1 show ?thesis by auto
qed

text \<open>
  C9. \<^verbatim>\<open>removeFeature\<close> is idempotent: for a slot \<open>i < nMax\<close>, a second
  \<^verbatim>\<open>removeFeature(i)\<close> returns the filter state the first one produced.
\<close>

theorem removeFeature_idempotent:
  assumes "i < nMax"
  shows "\<exists>fs1. removeFeature nMax nCam i fs = Inr fs1 \<and>
           removeFeature nMax nCam i fs1 = Inr fs1"
proof -
  have lt: "getId_dep nMax nCam i < getId_nor nMax nCam i"
    using assms by (rule slot_distinct)
  obtain fs1 where r: "removeFeature nMax nCam i fs = Inr fs1"
    using removeFeature_returns [OF assms] by blast
  obtain x where x: "removeFeature nMax nCam i fs1 = Inr x"
    using removeFeature_returns [OF assms] by blast
  note sx = removeFeature_state [OF x]
  note s1 = removeFeature_state [OF r]
  have "x = fs1"
  proof (rule FilterState_eqI)
    show "state x = state fs1"
      using sx(1) s1(1) by simp
    show "usePredictionMerge x = usePredictionMerge fs1"
      using sx(2) by simp
    show "imgTime x = imgTime fs1"
      using sx(3) by simp
    show "imageCounter x = imageCounter fs1"
      using sx(4) by simp
    show "cov x r c = cov fs1 r c" for r c
      using r x assms lt
      by (auto simp add: removeFeature_def Let_def
          block_assign_def Mat_Zero_def Mat_Identity_def)
  qed
  with r x show ?thesis by simp
qed

theorem removeFeature_idempotent_witness:
  "(1::nat) < 2 \<and>
   (\<exists>fs1. removeFeature 2 1 1 ((FilterState_example 2 1)
              \<lparr>state := (state (FilterState_example 2 1))\<lparr>dep := [4, 5]\<rparr>\<rparr>) = Inr fs1 \<and>
      removeFeature 2 1 1 fs1 = Inr fs1 \<and>
      dep (state fs1) = [4, 1])"
proof -
  let ?fs = "(FilterState_example 2 1)\<lparr>state := (state (FilterState_example 2 1))\<lparr>dep := [4, 5]\<rparr>\<rparr>"
  have h1: "(1::nat) < 2" by simp
  from removeFeature_idempotent [OF h1]
  obtain fs1 where r: "removeFeature 2 1 1 ?fs = Inr fs1"
    and e: "removeFeature 2 1 1 fs1 = Inr fs1"
    by blast
  have "dep (state fs1) = [4, 1]"
    using removeFeature_state(1) [OF r] by simp
  with r e h1 show ?thesis by auto
qed

text \<open>
  C1, as the claim states it, fails: with one slot and the auxiliary element the
  constructor builds, the encoding is Inverse, so after
  \<^verbatim>\<open>initializeFeatureState(0, (0,0,1), 2.0, diag(0.1,0.01,0.01))\<close> the accessor
  \<^verbatim>\<open>get_depth(0)\<close> returns 1 / 2.0 = 0.5, not 2.0.
\<close>

theorem default_scenario_depth_counterexample:
  "then_get (initializeFeatureState 1 1 0 (0, 0, 1) 2 initCov_example (FilterState_example 1 1))
     (\<lambda>s. get_depth 1 s 0) = Inr (1 / 2) \<and>
   then_get (initializeFeatureState 1 1 0 (0, 0, 1) 2 initCov_example (FilterState_example 1 1))
     (\<lambda>s. get_depth 1 s 0) \<noteq> Inr 2"
  by (simp add: then_get_def initializeFeatureState_def Let_def FilterState_example_def
      get_depth_def StateAuxiliary_ctor_depthMap DepthMap_map_def mapInverse_value)

text \<open>
  C1, amended. In a filter state with \<open>nMax = 1\<close> whose auxiliary element is the
  constructed one, after \<^verbatim>\<open>initializeFeatureState(0, (0,0,1), 2.0, diag(0.1,0.01,0.01))\<close>
  the depth parameter of slot 0 is 2.0 and \<^verbatim>\<open>get_depth(0)\<close> returns 0.5, its inverse;
  \<^verbatim>\<open>get_CfP(0)\<close> is (0,0,1), of unit norm; after a subsequent \<^verbatim>\<open>removeFeature(0)\<close>,
  \<^verbatim>\<open>get_depth(0)\<close> returns 1.0 and the 1 by 1 depth self-covariance of the slot is 1.0.
\<close>

theorem default_scenario:
  assumes "State_wf 1 nCam (state fs)" and "aux (state fs) = StateAuxiliary_ctor 1 nCam"
  shows "\<exists>fs1 fs2.
           initializeFeatureState 1 nCam 0 (0, 0, 1) 2 initCov_example fs = Inr fs1 \<and>
           dep (state fs1) ! 0 = 2 \<and>
           get_depth 1 (state fs1) 0 = Inr (1 / 2) \<and>
           get_CfP 1 (state fs1) 0 = Inr (0, 0, 1) \<and>
           V3D_norm (0, 0, 1) = 1 \<and>
           removeFeature 1 nCam 0 fs1 = Inr fs2 \<and>
           get_depth 1 (state fs2) 0 = Inr 1 \<and>
           block (cov fs2) (getId_dep 1 nCam 0) (getId_dep 1 nCam 0) 0 0 = 1"
proof -
  have h: "(0::nat) < 1" by simp
  obtain fs1 where r1: "initializeFeatureState 1 nCam 0 (0, 0, 1) 2 initCov_example fs = Inr fs1"
    using initializeFeatureState_returns [OF h] by blast
  obtain fs2 where r2: "removeFeature 1 nCam 0 fs1 = Inr fs2"
    using removeFeature_returns [OF h] by blast
  have len: "0 < length (dep (state fs))" "0 < length (nor (state fs))"
    using assms(1) by (simp_all add: State_wf_def)
  note s1 = initializeFeatureState_state(1) [OF r1]
  note s2 = removeFeature_state(1) [OF r2]
  have dm1: "depthMap (aux (state fs1)) = \<lparr>type = INVERSE\<rparr>"
    using s1 assms(2) by (simp add: StateAuxiliary_ctor_depthMap)
  have dm2: "depthMap (aux (state fs2)) = \<lparr>type = INVERSE\<rparr>"
    using s2 dm1 by simp
  have d1: "dep (state fs1) ! 0 = 2" using s1 len by simp
  have n1: "nor (state fs1) ! 0 = NormalVectorElement (0, 0, 1)"
    using s1 len by (simp add: setFromVector_unit_z)
  have d2: "dep (state fs2) ! 0 = 1" using s2 s1 len by simp
  have g1: "get_depth 1 (state fs1) 0 = Inr (1 / 2)"
    using d1 dm1 by (simp add: get_depth_def DepthMap_map_def mapInverse_value)
  have b1: "get_CfP 1 (state fs1) 0 = Inr (0, 0, 1)"
    using n1 by (simp add: get_CfP_def)
  have u: "V3D_norm (0, 0, 1) = 1" by (simp add: V3D_norm_def)
  have g2: "get_depth 1 (state fs2) 0 = Inr 1"
    using d2 dm2 by (simp add: get_depth_def DepthMap_map_def mapInverse_value)
  have rg: "getId_dep 1 nCam 0 < D 1 nCam"
    using slot_in_range [OF h] by simp
  have c: "block (cov fs2) (getId_dep 1 nCam 0) (getId_dep 1 nCam 0) 0 0 = 1"
    using removeFeature_cov [OF h r2 rg rg] by (simp add: block_def slot_pos_def)
  from r1 d1 g1 b1 u r2 g2 c show ?thesis by blast
qed

theorem default_scenario_witness:
  "State_wf 1 1 (state (FilterState_example 1 1)) \<and>
   aux (state (FilterState_example 1 1)) = StateAuxiliary_ctor 1 1 \<and>
   (\<exists>fs1 fs2.
      initializeFeatureState 1 1 0 (0, 0, 1) 2 initCov_example (FilterState_example 1 1)
        = Inr fs1 \<and>
      get_depth 1 (state fs1) 0 = Inr (1 / 2) \<and>
      removeFeature 1 1 0 fs1 = Inr fs2 \<and>
      get_depth 1 (state fs2) 0 = Inr 1 \<and>
      cov fs2 21 21 = 1)"
proof -
  have h1: "State_wf 1 1 (state (FilterState_example 1 1))" by (rule State_wf_example)
  have h2: "aux (state (FilterState_example 1 1)) = StateAuxiliary_ctor 1 1"
    by (simp add: FilterState_example_def)
  have id: "getId_dep 1 1 0 = 21" by (simp add: getId_dep_def)
  from default_scenario [OF h1 h2] h1 h2 show ?thesis
    unfolding id block_def by auto
qed

text \<open>
  C8. The claim asks that \<^verbatim>\<open>initWithImuPose(WrWM, qMW)\<close> stores \<open>WrWM\<close> in the position
  block, which the source documents as expressed in world coordinates, and the inverse of
  \<open>qMW\<close> in the orientation block. The source stores \<^verbatim>\<open>qMW.rotate(WrWM)\<close> in the
  position block: for the position (1,0,0) and the half turn about the z axis the
  position block becomes (-1,0,0). The orientation block is the inverse of \<open>qMW\<close>.
\<close>

theorem initWithImuPose_rotates_position:
  "pos (state (initWithImuPose (1, 0, 0) \<lparr>qw = 0, qx = 0, qy = 0, qz = 1\<rparr>
          (FilterState_example 1 1))) = (- 1, 0, 0) \<and>
   pos (state (initWithImuPose (1, 0, 0) \<lparr>qw = 0, qx = 0, qy = 0, qz = 1\<rparr>
          (FilterState_example 1 1))) \<noteq> (1, 0, 0) \<and>
   att (state (initWithImuPose (1, 0, 0) \<lparr>qw = 0, qx = 0, qy = 0, qz = 1\<rparr>
          (FilterState_example 1 1))) = inverted \<lparr>qw = 0, qx = 0, qy = 0, qz = 1\<rparr>"
  by (simp add: initWithImuPose_state rotate_def)

end
